theory Spec2Isabelle
  imports Main "HOL-Library.Word"
begin

section \<open>The lock registry of dutex (main.go)\<close>

subsection \<open>Data\<close>

text \<open>
  Go's \<^verbatim>\<open>time.Time\<close> is read as a point on the integer line of nanoseconds, the
  reading of the process's monotonic clock; \<^verbatim>\<open>t.Before(u)\<close> is \<open>t < u\<close>.
  \<^verbatim>\<open>time.Duration\<close> is Go's \<^verbatim>\<open>int64\<close> count of nanoseconds, and
  \<^verbatim>\<open>t.Add(d)\<close> moves \<open>t\<close> by the signed value of \<open>d\<close> (read by \<open>sint\<close>).
\<close>

type_synonym time = int
type_synonym duration = "64 word"

definition Before :: "time \<Rightarrow> time \<Rightarrow> bool" where
  "Before t u = (t < u)"

definition Add :: "time \<Rightarrow> duration \<Rightarrow> time" where
  "Add t d = t + sint d"

text \<open>
  \<^verbatim>\<open>type Resource struct { version uint64; expiration time.Time }\<close>
\<close>

record Resource =
  version :: "64 word"
  expiration :: time

text \<open>
  \<^verbatim>\<open>type Dutex struct { mutex sync.Mutex; locked map[string]Resource; version uint64 }\<close>

  The counter field \<^verbatim>\<open>version\<close> of the registry is named \<open>dutex_version\<close>, the
  name \<open>version\<close> being taken by the field of \<open>Resource\<close>. Both methods hold
  \<^verbatim>\<open>mutex\<close> from their first statement to their return, so a call is one
  transition of the registry and the mutex itself carries no state of the model.
\<close>

record Dutex =
  locked :: "string \<rightharpoonup> Resource"
  dutex_version :: "64 word"

definition newDutex :: Dutex where
  "newDutex = \<lparr>locked = Map.empty, dutex_version = 0\<rparr>"

text \<open>
  \<^verbatim>\<open>type LockArg struct { Resource string; Lifetime time.Duration }\<close> and
  \<^verbatim>\<open>type UnlockArg struct { Resource string; Version uint64 }\<close>; the two
  \<^verbatim>\<open>Resource\<close> fields are told apart by a prefix.
\<close>

record LockArg =
  lock_Resource :: string
  Lifetime :: duration

record UnlockArg =
  unlock_Resource :: string
  Version :: "64 word"

subsection \<open>Errors\<close>

text \<open>
  The three \<^verbatim>\<open>fmt.Errorf\<close> calls of the registry, each constructor carrying the
  arguments that the call formats:
  \<^verbatim>\<open>"%s is already locked."\<close> (the resource),
  \<^verbatim>\<open>"%s is already unlocked"\<close> (the resource) and
  \<^verbatim>\<open>"expected version %d, got version %d"\<close> (the stored and the supplied version).
\<close>

datatype error =
    AlreadyLocked string
  | AlreadyUnlocked string
  | VersionMismatch "64 word" "64 word"

text \<open>The verb \<^verbatim>\<open>%d\<close> on an unsigned integer: its decimal digits.\<close>

definition digit_char :: "nat \<Rightarrow> char" where
  "digit_char n = char_of (48 + n)"

function decimal :: "nat \<Rightarrow> string" where
  "decimal n = (if n < 10 then [digit_char n] else decimal (n div 10) @ [digit_char (n mod 10)])"
  by pat_completeness auto
termination
  by (relation "measure id") auto

declare decimal.simps [simp del]

text \<open>The message of an error, as \<^verbatim>\<open>Error()\<close> returns it.\<close>

fun error_text :: "error \<Rightarrow> string" where
  "error_text (AlreadyLocked r) = r @ '' is already locked.''"
| "error_text (AlreadyUnlocked r) = r @ '' is already unlocked''"
| "error_text (VersionMismatch e g) =
     ''expected version '' @ decimal (unat e) @ '', got version '' @ decimal (unat g)"

subsection \<open>Lock and Unlock\<close>

text \<open>
  \<^verbatim>\<open>func (dutex *Dutex) Lock(arg LockArg, version *uint64) error\<close>.
  The method reads the clock twice: \<open>now1\<close> is the reading compared with the stored
  expiration (taken only when an entry exists), \<open>now2\<close> the reading the new expiration is
  computed from. The result is the error, or the value written to \<^verbatim>\<open>*version\<close>,
  paired with the registry after the call.
\<close>

definition Lock :: "Dutex \<Rightarrow> LockArg \<Rightarrow> time \<Rightarrow> time \<Rightarrow> (error + 64 word) \<times> Dutex" where
  "Lock dutex arg now1 now2 =
     (if (case locked dutex (lock_Resource arg) of
            Some previous \<Rightarrow> Before now1 (expiration previous)
          | None \<Rightarrow> False)
      then (Inl (AlreadyLocked (lock_Resource arg)), dutex)
      else
        let expiration' = Add now2 (Lifetime arg);
            dutex1 = dutex\<lparr>dutex_version := dutex_version dutex + 1\<rparr>;
            dutex2 = dutex1\<lparr>locked := (locked dutex1)(lock_Resource arg \<mapsto>
                        \<lparr>version = dutex_version dutex1, expiration = expiration'\<rparr>)\<rparr>
        in (Inr (dutex_version dutex2), dutex2))"

text \<open>
  \<^verbatim>\<open>func (dutex *Dutex) Unlock(arg UnlockArg, _ *UnlockReply) error\<close>.
  The method never reads the clock.
\<close>

definition Unlock :: "Dutex \<Rightarrow> UnlockArg \<Rightarrow> (error + unit) \<times> Dutex" where
  "Unlock dutex arg =
     (case locked dutex (unlock_Resource arg) of
        None \<Rightarrow> (Inl (AlreadyUnlocked (unlock_Resource arg)), dutex)
      | Some previous \<Rightarrow>
          if Version arg \<noteq> version previous
          then (Inl (VersionMismatch (version previous) (Version arg)), dutex)
          else (Inr (), dutex\<lparr>locked := (locked dutex)(unlock_Resource arg := None)\<rparr>))"

subsection \<open>Sequences of calls\<close>

text \<open>
  The server registers one registry, \<^verbatim>\<open>newDutex()\<close>, and every remote call runs one
  of its two methods. A call of \<^verbatim>\<open>Lock\<close> comes with the two clock readings it takes.
\<close>

datatype call =
    CallLock LockArg time time
  | CallUnlock UnlockArg

fun step :: "Dutex \<Rightarrow> call \<Rightarrow> Dutex" where
  "step dutex (CallLock arg now1 now2) = snd (Lock dutex arg now1 now2)"
| "step dutex (CallUnlock arg) = snd (Unlock dutex arg)"

text \<open>The version a call hands out: that of a \<^verbatim>\<open>Lock\<close> that returns no error.\<close>

fun granted :: "Dutex \<Rightarrow> call \<Rightarrow> 64 word option" where
  "granted dutex (CallLock arg now1 now2) =
     (case fst (Lock dutex arg now1 now2) of Inr v \<Rightarrow> Some v | Inl e \<Rightarrow> None)"
| "granted dutex (CallUnlock arg) = None"

text \<open>Running the calls in order: the versions handed out, oldest first.\<close>

fun issued :: "Dutex \<Rightarrow> call list \<Rightarrow> 64 word list" where
  "issued dutex [] = []"
| "issued dutex (c # cs) =
     (case granted dutex c of
        Some v \<Rightarrow> v # issued (step dutex c) cs
      | None \<Rightarrow> issued (step dutex c) cs)"

text \<open>
  The registry after a sequence of calls.
\<close>

fun run :: "Dutex \<Rightarrow> call list \<Rightarrow> Dutex" where
  "run dutex [] = dutex"
| "run dutex (c # cs) = run (step dutex c) cs"





section \<open>Properties\<close>

subsection \<open>Lock\<close>

text \<open>
  C1. For every registry and every call of Lock: when an entry for the resource exists and
  the current time is strictly before its expiration, the call fails with AlreadyLocked
  naming the resource; otherwise (no entry, or the entry has expired) the call increments
  the counter, stores or overwrites the entry with the new version and the expiration
  now + lifetime, and returns the new version.
\<close>

theorem Lock_spec:
  "((\<exists>previous. locked dutex (lock_Resource arg) = Some previous \<and> now1 < expiration previous)
      \<longrightarrow> fst (Lock dutex arg now1 now2) = Inl (AlreadyLocked (lock_Resource arg)))
   \<and> (\<not> (\<exists>previous. locked dutex (lock_Resource arg) = Some previous \<and> now1 < expiration previous)
      \<longrightarrow> Lock dutex arg now1 now2 =
            (Inr (dutex_version dutex + 1),
             \<lparr>locked = (locked dutex)(lock_Resource arg \<mapsto>
                  \<lparr>version = dutex_version dutex + 1,
                   expiration = now2 + sint (Lifetime arg)\<rparr>),
              dutex_version = dutex_version dutex + 1\<rparr>))"
  by (cases "locked dutex (lock_Resource arg)") (auto simp: Lock_def Before_def Add_def Let_def)

theorem Lock_spec_witness:
  "fst (Lock \<lparr>locked = [''foo'' \<mapsto> \<lparr>version = 1, expiration = 100\<rparr>], dutex_version = 1\<rparr>
          \<lparr>lock_Resource = ''foo'', Lifetime = 5\<rparr> 10 11) = Inl (AlreadyLocked ''foo'')
   \<and> Lock \<lparr>locked = [''foo'' \<mapsto> \<lparr>version = 1, expiration = 100\<rparr>], dutex_version = 1\<rparr>
          \<lparr>lock_Resource = ''foo'', Lifetime = 5\<rparr> 100 101
      = (Inr 2, \<lparr>locked = [''foo'' \<mapsto> \<lparr>version = 2, expiration = 106\<rparr>], dutex_version = 2\<rparr>)
   \<and> Lock \<lparr>locked = [''foo'' \<mapsto> \<lparr>version = 1, expiration = 100\<rparr>], dutex_version = 1\<rparr>
          \<lparr>lock_Resource = ''bar'', Lifetime = 5\<rparr> 10 11
      = (Inr 2, \<lparr>locked = [''foo'' \<mapsto> \<lparr>version = 1, expiration = 100\<rparr>,
                             ''bar'' \<mapsto> \<lparr>version = 2, expiration = 16\<rparr>], dutex_version = 2\<rparr>)"
  using Lock_spec [of "\<lparr>locked = [''foo'' \<mapsto> \<lparr>version = 1, expiration = 100\<rparr>], dutex_version = 1\<rparr>"
          "\<lparr>lock_Resource = ''foo'', Lifetime = 5\<rparr>" 10 11]
        Lock_spec [of "\<lparr>locked = [''foo'' \<mapsto> \<lparr>version = 1, expiration = 100\<rparr>], dutex_version = 1\<rparr>"
          "\<lparr>lock_Resource = ''foo'', Lifetime = 5\<rparr>" 100 101]
        Lock_spec [of "\<lparr>locked = [''foo'' \<mapsto> \<lparr>version = 1, expiration = 100\<rparr>], dutex_version = 1\<rparr>"
          "\<lparr>lock_Resource = ''bar'', Lifetime = 5\<rparr>" 10 11]
  by simp

text \<open>
  C8. Atomicity of Lock on failure: whenever Lock returns an error, the error is
  AlreadyLocked for the requested resource and the registry after the call is the registry
  before it: the same entries (the live entry of the contested resource among them) and the
  same counter.
\<close>

theorem Lock_failure_atomic:
  "fst (Lock dutex arg now1 now2) = Inl e \<Longrightarrow>
     e = AlreadyLocked (lock_Resource arg)
     \<and> snd (Lock dutex arg now1 now2) = dutex
     \<and> locked (snd (Lock dutex arg now1 now2)) = locked dutex
     \<and> dutex_version (snd (Lock dutex arg now1 now2)) = dutex_version dutex"
  by (auto simp: Lock_def Let_def split: if_splits)

theorem Lock_failure_atomic_witness:
  "fst (Lock \<lparr>locked = [''foo'' \<mapsto> \<lparr>version = 1, expiration = 100\<rparr>], dutex_version = 1\<rparr>
          \<lparr>lock_Resource = ''foo'', Lifetime = 5\<rparr> 10 11) = Inl (AlreadyLocked ''foo'')
   \<and> snd (Lock \<lparr>locked = [''foo'' \<mapsto> \<lparr>version = 1, expiration = 100\<rparr>], dutex_version = 1\<rparr>
          \<lparr>lock_Resource = ''foo'', Lifetime = 5\<rparr> 10 11)
      = \<lparr>locked = [''foo'' \<mapsto> \<lparr>version = 1, expiration = 100\<rparr>], dutex_version = 1\<rparr>"
  using Lock_failure_atomic [of "\<lparr>locked = [''foo'' \<mapsto> \<lparr>version = 1, expiration = 100\<rparr>], dutex_version = 1\<rparr>"
          "\<lparr>lock_Resource = ''foo'', Lifetime = 5\<rparr>" 10 11 "AlreadyLocked ''foo''"]
  by (simp add: Lock_def Before_def)

text \<open>
  C6. After a successful Lock of a resource with a zero or negative lifetime, a Lock of
  the same resource that reads the clock no earlier than the first one did succeeds: the
  first lock counts as expired at once. The clock is monotonic, so \<open>now2 \<le> now3\<close>
  holds of every later call.
\<close>

theorem Lock_after_expired_lifetime:
  assumes "sint (Lifetime arg) \<le> 0"
    and "Lock dutex arg now1 now2 = (Inr V, dutex1)"
    and "lock_Resource arg' = lock_Resource arg"
    and "now2 \<le> now3"
  shows "fst (Lock dutex1 arg' now3 now4) = Inr (V + 1)"
  using assms
  by (auto simp: Lock_def Let_def Before_def Add_def split: if_splits)

theorem Lock_after_expired_lifetime_witness:
  "sint (Lifetime \<lparr>lock_Resource = ''foo'', Lifetime = - 5\<rparr>) \<le> 0
   \<and> Lock newDutex \<lparr>lock_Resource = ''foo'', Lifetime = - 5\<rparr> 10 11
       = (Inr 1, \<lparr>locked = [''foo'' \<mapsto> \<lparr>version = 1, expiration = 6\<rparr>], dutex_version = 1\<rparr>)
   \<and> (11 :: int) \<le> 11
   \<and> fst (Lock \<lparr>locked = [''foo'' \<mapsto> \<lparr>version = 1, expiration = 6\<rparr>], dutex_version = 1\<rparr>
            \<lparr>lock_Resource = ''foo'', Lifetime = 60\<rparr> 11 12) = Inr 2"
proof -
  have h1: "sint (Lifetime \<lparr>lock_Resource = ''foo'', Lifetime = - 5\<rparr>) \<le> 0"
    by simp
  have h2: "Lock newDutex \<lparr>lock_Resource = ''foo'', Lifetime = - 5\<rparr> 10 11
       = (Inr 1, \<lparr>locked = [''foo'' \<mapsto> \<lparr>version = 1, expiration = 6\<rparr>], dutex_version = 1\<rparr>)"
    by (simp add: Lock_def newDutex_def Add_def)
  show ?thesis
    using h1 h2 Lock_after_expired_lifetime [OF h1 h2, of "\<lparr>lock_Resource = ''foo'', Lifetime = 60\<rparr>" 11 12]
    by simp
qed

subsection \<open>Unlock\<close>

text \<open>
  C3, as the claim has it, lets the VersionMismatch failure report the resource. The error
  that Unlock builds is formatted from the stored and the supplied version alone: the call
  on \<open>foo\<close> fails with the message \<open>expected version 1, got version 2\<close>, the very error
  that the same call on \<open>bar\<close> fails with.
\<close>

theorem Unlock_mismatch_omits_resource:
  "fst (Unlock \<lparr>locked = [''foo'' \<mapsto> \<lparr>version = 1, expiration = 100\<rparr>], dutex_version = 1\<rparr>
          \<lparr>unlock_Resource = ''foo'', Version = 2\<rparr>) = Inl (VersionMismatch 1 2)
   \<and> error_text (VersionMismatch 1 2) = ''expected version 1, got version 2''
   \<and> fst (Unlock \<lparr>locked = [''bar'' \<mapsto> \<lparr>version = 1, expiration = 100\<rparr>], dutex_version = 1\<rparr>
          \<lparr>unlock_Resource = ''bar'', Version = 2\<rparr>)
     = fst (Unlock \<lparr>locked = [''foo'' \<mapsto> \<lparr>version = 1, expiration = 100\<rparr>], dutex_version = 1\<rparr>
          \<lparr>unlock_Resource = ''foo'', Version = 2\<rparr>)"
proof -
  have "error_text (VersionMismatch 1 2) = ''expected version 1, got version 2''"
    by code_simp
  then show ?thesis
    by (simp add: Unlock_def)
qed

text \<open>
  C3 (amended). For every registry and every call of Unlock: the call fails with
  AlreadyUnlocked naming the resource if and only if no entry exists for the resource; it
  fails with VersionMismatch, reporting the expected (stored) and the supplied version and
  nothing else, if and only if the entry exists and the supplied version differs from the
  stored one, and the registry is then unchanged; otherwise it removes the entry and
  succeeds.
\<close>

theorem Unlock_spec:
  "(fst (Unlock dutex arg) = Inl (AlreadyUnlocked (unlock_Resource arg))
      \<longleftrightarrow> locked dutex (unlock_Resource arg) = None)
   \<and> ((\<exists>expected got. fst (Unlock dutex arg) = Inl (VersionMismatch expected got))
      \<longleftrightarrow> (\<exists>previous. locked dutex (unlock_Resource arg) = Some previous
                        \<and> Version arg \<noteq> version previous))
   \<and> (\<forall>previous. locked dutex (unlock_Resource arg) = Some previous \<longrightarrow>
        Unlock dutex arg =
          (if Version arg \<noteq> version previous
           then (Inl (VersionMismatch (version previous) (Version arg)), dutex)
           else (Inr (), dutex\<lparr>locked := (locked dutex)(unlock_Resource arg := None)\<rparr>)))"
  by (cases "locked dutex (unlock_Resource arg)") (auto simp: Unlock_def)

theorem Unlock_spec_witness:
  "fst (Unlock \<lparr>locked = [''foo'' \<mapsto> \<lparr>version = 1, expiration = 100\<rparr>], dutex_version = 1\<rparr>
          \<lparr>unlock_Resource = ''bar'', Version = 1\<rparr>) = Inl (AlreadyUnlocked ''bar'')
   \<and> Unlock \<lparr>locked = [''foo'' \<mapsto> \<lparr>version = 1, expiration = 100\<rparr>], dutex_version = 1\<rparr>
          \<lparr>unlock_Resource = ''foo'', Version = 7\<rparr>
       = (Inl (VersionMismatch 1 7),
          \<lparr>locked = [''foo'' \<mapsto> \<lparr>version = 1, expiration = 100\<rparr>], dutex_version = 1\<rparr>)
   \<and> Unlock \<lparr>locked = [''foo'' \<mapsto> \<lparr>version = 1, expiration = 100\<rparr>], dutex_version = 1\<rparr>
          \<lparr>unlock_Resource = ''foo'', Version = 1\<rparr>
       = (Inr (), \<lparr>locked = Map.empty, dutex_version = 1\<rparr>)"
  using Unlock_spec [of "\<lparr>locked = [''foo'' \<mapsto> \<lparr>version = 1, expiration = 100\<rparr>], dutex_version = 1\<rparr>"
          "\<lparr>unlock_Resource = ''bar'', Version = 1\<rparr>"]
        Unlock_spec [of "\<lparr>locked = [''foo'' \<mapsto> \<lparr>version = 1, expiration = 100\<rparr>], dutex_version = 1\<rparr>"
          "\<lparr>unlock_Resource = ''foo'', Version = 7\<rparr>"]
        Unlock_spec [of "\<lparr>locked = [''foo'' \<mapsto> \<lparr>version = 1, expiration = 100\<rparr>], dutex_version = 1\<rparr>"
          "\<lparr>unlock_Resource = ''foo'', Version = 1\<rparr>"]
  by simp

text \<open>
  C4. Unlock never checks expiration: when the entry of a resource has an expiration that
  is already in the past, an Unlock that supplies the stored version still succeeds and
  removes the entry.
\<close>

theorem Unlock_ignores_expiration:
  "locked dutex resource = Some previous \<Longrightarrow> expiration previous < now \<Longrightarrow>
     Unlock dutex \<lparr>unlock_Resource = resource, Version = version previous\<rparr>
       = (Inr (), dutex\<lparr>locked := (locked dutex)(resource := None)\<rparr>)"
  by (simp add: Unlock_def)

theorem Unlock_ignores_expiration_witness:
  "[''foo'' \<mapsto> \<lparr>version = 1, expiration = 100\<rparr>] ''foo'' = Some \<lparr>version = 1, expiration = 100\<rparr>
   \<and> expiration \<lparr>version = 1, expiration = 100\<rparr> < 5000
   \<and> Unlock \<lparr>locked = [''foo'' \<mapsto> \<lparr>version = 1, expiration = 100\<rparr>], dutex_version = 1\<rparr>
          \<lparr>unlock_Resource = ''foo'', Version = 1\<rparr>
       = (Inr (), \<lparr>locked = Map.empty, dutex_version = 1\<rparr>)"
  using Unlock_ignores_expiration [of
          "\<lparr>locked = [''foo'' \<mapsto> \<lparr>version = 1, expiration = 100\<rparr>], dutex_version = 1\<rparr>"
          "''foo''" "\<lparr>version = 1, expiration = 100\<rparr>" 5000]
  by simp

text \<open>
  C5, as the claim has it, makes the failure VersionMismatch(R, V, V + 1). The error does
  not carry R: after a Lock of \<open>a\<close> that returns 1, Unlock of \<open>a\<close> with version 2 fails
  with \<open>expected version 1, got version 2\<close>, the same error as in the same run on
  \<open>b\<close>.
\<close>

theorem Unlock_wrong_error_omits_resource:
  "fst (Unlock (snd (Lock newDutex \<lparr>lock_Resource = ''a'', Lifetime = 60\<rparr> 10 11))
          \<lparr>unlock_Resource = ''a'', Version = 2\<rparr>)
     = fst (Unlock (snd (Lock newDutex \<lparr>lock_Resource = ''b'', Lifetime = 60\<rparr> 10 11))
          \<lparr>unlock_Resource = ''b'', Version = 2\<rparr>)
   \<and> fst (Lock newDutex \<lparr>lock_Resource = ''a'', Lifetime = 60\<rparr> 10 11) = Inr 1
   \<and> map_sum error_text id (fst (Unlock (snd (Lock newDutex \<lparr>lock_Resource = ''a'', Lifetime = 60\<rparr> 10 11))
          \<lparr>unlock_Resource = ''a'', Version = 2\<rparr>))
     = Inl ''expected version 1, got version 2''"
proof -
  have "error_text (VersionMismatch 1 2) = ''expected version 1, got version 2''"
    by code_simp
  then show ?thesis
    by (simp add: Unlock_def Lock_def newDutex_def)
qed

text \<open>
  C5 (amended). After a successful Lock of R that returns V, Unlock of R with V + 1 fails
  with VersionMismatch carrying the expected version V and the supplied version V + 1, the
  registry (the entry of R with it) is left as it was, and a later Unlock of R with V
  succeeds and removes the entry.
\<close>

theorem Unlock_wrong_then_right:
  assumes "Lock dutex arg now1 now2 = (Inr V, dutex1)"
  shows "Unlock dutex1 \<lparr>unlock_Resource = lock_Resource arg, Version = V + 1\<rparr>
           = (Inl (VersionMismatch V (V + 1)), dutex1)
       \<and> Unlock (snd (Unlock dutex1 \<lparr>unlock_Resource = lock_Resource arg, Version = V + 1\<rparr>))
            \<lparr>unlock_Resource = lock_Resource arg, Version = V\<rparr>
           = (Inr (), dutex1\<lparr>locked := (locked dutex1)(lock_Resource arg := None)\<rparr>)"
  using assms
  by (auto simp: Lock_def Unlock_def Let_def split: if_splits)

theorem Unlock_wrong_then_right_witness:
  "Lock newDutex \<lparr>lock_Resource = ''foo'', Lifetime = 60\<rparr> 10 11
     = (Inr 1, \<lparr>locked = [''foo'' \<mapsto> \<lparr>version = 1, expiration = 71\<rparr>], dutex_version = 1\<rparr>)
   \<and> Unlock \<lparr>locked = [''foo'' \<mapsto> \<lparr>version = 1, expiration = 71\<rparr>], dutex_version = 1\<rparr>
        \<lparr>unlock_Resource = ''foo'', Version = 2\<rparr>
     = (Inl (VersionMismatch 1 2),
        \<lparr>locked = [''foo'' \<mapsto> \<lparr>version = 1, expiration = 71\<rparr>], dutex_version = 1\<rparr>)
   \<and> Unlock (snd (Unlock \<lparr>locked = [''foo'' \<mapsto> \<lparr>version = 1, expiration = 71\<rparr>], dutex_version = 1\<rparr>
                     \<lparr>unlock_Resource = ''foo'', Version = 2\<rparr>))
        \<lparr>unlock_Resource = ''foo'', Version = 1\<rparr>
     = (Inr (), \<lparr>locked = Map.empty, dutex_version = 1\<rparr>)"
proof -
  have h: "Lock newDutex \<lparr>lock_Resource = ''foo'', Lifetime = 60\<rparr> 10 11
     = (Inr 1, \<lparr>locked = [''foo'' \<mapsto> \<lparr>version = 1, expiration = 71\<rparr>], dutex_version = 1\<rparr>)"
    by (simp add: Lock_def newDutex_def Add_def)
  show ?thesis
    using h Unlock_wrong_then_right [OF h] by (simp add: Unlock_def)
qed

subsection \<open>Lock and Unlock together\<close>

text \<open>
  C7. Round trip: after a successful Lock of R that returns V, Unlock of R with V succeeds
  and removes the entry of R, and a Lock of R after that succeeds whatever the clock reads
  (no expiration is waited for).
\<close>

theorem Lock_Unlock_Lock:
  assumes "Lock dutex arg now1 now2 = (Inr V, dutex1)"
    and "lock_Resource arg' = lock_Resource arg"
  shows "fst (Unlock dutex1 \<lparr>unlock_Resource = lock_Resource arg, Version = V\<rparr>) = Inr ()
       \<and> locked (snd (Unlock dutex1 \<lparr>unlock_Resource = lock_Resource arg, Version = V\<rparr>))
            (lock_Resource arg) = None
       \<and> fst (Lock (snd (Unlock dutex1 \<lparr>unlock_Resource = lock_Resource arg, Version = V\<rparr>))
                arg' now3 now4) = Inr (V + 1)"
  using assms
  by (auto simp: Lock_def Unlock_def Let_def split: if_splits)

theorem Lock_Unlock_Lock_witness:
  "Lock newDutex \<lparr>lock_Resource = ''foo'', Lifetime = 60\<rparr> 10 11
     = (Inr 1, \<lparr>locked = [''foo'' \<mapsto> \<lparr>version = 1, expiration = 71\<rparr>], dutex_version = 1\<rparr>)
   \<and> Unlock \<lparr>locked = [''foo'' \<mapsto> \<lparr>version = 1, expiration = 71\<rparr>], dutex_version = 1\<rparr>
        \<lparr>unlock_Resource = ''foo'', Version = 1\<rparr>
     = (Inr (), \<lparr>locked = Map.empty, dutex_version = 1\<rparr>)
   \<and> fst (Lock \<lparr>locked = Map.empty, dutex_version = 1\<rparr>
        \<lparr>lock_Resource = ''foo'', Lifetime = 30\<rparr> 12 13) = Inr 2"
proof -
  have h: "Lock newDutex \<lparr>lock_Resource = ''foo'', Lifetime = 60\<rparr> 10 11
     = (Inr 1, \<lparr>locked = [''foo'' \<mapsto> \<lparr>version = 1, expiration = 71\<rparr>], dutex_version = 1\<rparr>)"
    by (simp add: Lock_def newDutex_def Add_def)
  have u: "Unlock \<lparr>locked = [''foo'' \<mapsto> \<lparr>version = 1, expiration = 71\<rparr>], dutex_version = 1\<rparr>
        \<lparr>unlock_Resource = ''foo'', Version = 1\<rparr>
     = (Inr (), \<lparr>locked = Map.empty, dutex_version = 1\<rparr>)"
    by (simp add: Unlock_def)
  show ?thesis
    using h u Lock_Unlock_Lock [OF h, of "\<lparr>lock_Resource = ''foo'', Lifetime = 30\<rparr>" 12 13]
    by simp
qed

text \<open>
  C10. Frame: a call of Lock or Unlock on R, failing or not, leaves the entry of every
  other resource as it was. Unlock never changes the counter, and neither does a Lock that
  fails.
\<close>

theorem Lock_Unlock_frame:
  "(resource \<noteq> lock_Resource larg \<longrightarrow>
      locked (snd (Lock dutex larg now1 now2)) resource = locked dutex resource)
   \<and> (resource \<noteq> unlock_Resource uarg \<longrightarrow>
      locked (snd (Unlock dutex uarg)) resource = locked dutex resource)
   \<and> dutex_version (snd (Unlock dutex uarg)) = dutex_version dutex
   \<and> (\<forall>e. fst (Lock dutex larg now1 now2) = Inl e \<longrightarrow>
        dutex_version (snd (Lock dutex larg now1 now2)) = dutex_version dutex)"
  by (auto simp: Lock_def Unlock_def Let_def split: option.splits if_splits)

theorem Lock_Unlock_frame_witness:
  "''foo'' \<noteq> lock_Resource \<lparr>lock_Resource = ''bar'', Lifetime = 5\<rparr>
   \<and> locked (snd (Lock \<lparr>locked = [''foo'' \<mapsto> \<lparr>version = 1, expiration = 100\<rparr>], dutex_version = 1\<rparr>
        \<lparr>lock_Resource = ''bar'', Lifetime = 5\<rparr> 10 11)) ''foo''
       = Some \<lparr>version = 1, expiration = 100\<rparr>
   \<and> ''foo'' \<noteq> unlock_Resource \<lparr>unlock_Resource = ''bar'', Version = 1\<rparr>
   \<and> locked (snd (Unlock \<lparr>locked = [''foo'' \<mapsto> \<lparr>version = 1, expiration = 100\<rparr>], dutex_version = 1\<rparr>
        \<lparr>unlock_Resource = ''bar'', Version = 1\<rparr>)) ''foo''
       = Some \<lparr>version = 1, expiration = 100\<rparr>
   \<and> dutex_version (snd (Unlock \<lparr>locked = [''foo'' \<mapsto> \<lparr>version = 1, expiration = 100\<rparr>], dutex_version = 1\<rparr>
        \<lparr>unlock_Resource = ''bar'', Version = 1\<rparr>)) = 1
   \<and> fst (Lock \<lparr>locked = [''foo'' \<mapsto> \<lparr>version = 1, expiration = 100\<rparr>], dutex_version = 1\<rparr>
        \<lparr>lock_Resource = ''foo'', Lifetime = 5\<rparr> 10 11) = Inl (AlreadyLocked ''foo'')
   \<and> dutex_version (snd (Lock \<lparr>locked = [''foo'' \<mapsto> \<lparr>version = 1, expiration = 100\<rparr>], dutex_version = 1\<rparr>
        \<lparr>lock_Resource = ''foo'', Lifetime = 5\<rparr> 10 11)) = 1"
proof -
  have f: "fst (Lock \<lparr>locked = [''foo'' \<mapsto> \<lparr>version = 1, expiration = 100\<rparr>], dutex_version = 1\<rparr>
        \<lparr>lock_Resource = ''foo'', Lifetime = 5\<rparr> 10 11) = Inl (AlreadyLocked ''foo'')"
    by (simp add: Lock_def Before_def)
  show ?thesis
    using f
      Lock_Unlock_frame [of "''foo''" "\<lparr>lock_Resource = ''bar'', Lifetime = 5\<rparr>"
          "\<lparr>locked = [''foo'' \<mapsto> \<lparr>version = 1, expiration = 100\<rparr>], dutex_version = 1\<rparr>" 10 11
          "\<lparr>unlock_Resource = ''bar'', Version = 1\<rparr>"]
      Lock_Unlock_frame [of "''bar''" "\<lparr>lock_Resource = ''foo'', Lifetime = 5\<rparr>"
          "\<lparr>locked = [''foo'' \<mapsto> \<lparr>version = 1, expiration = 100\<rparr>], dutex_version = 1\<rparr>" 10 11
          "\<lparr>unlock_Resource = ''foo'', Version = 1\<rparr>"]
    by simp
qed

subsection \<open>The version counter\<close>

text \<open>
  Every version handed out is the counter plus one, and only a Lock that succeeds moves
  the counter. So the \<open>i\<close>-th version handed out by a run is the counter at its start
  plus \<open>i + 1\<close>, in the arithmetic of \<^verbatim>\<open>uint64\<close>.
\<close>

lemma granted_Some:
  "granted dutex c = Some v \<Longrightarrow>
     v = dutex_version dutex + 1 \<and> dutex_version (step dutex c) = dutex_version dutex + 1"
  by (cases c) (auto simp: Lock_def Let_def split: if_splits)

lemma granted_None:
  "granted dutex c = None \<Longrightarrow> dutex_version (step dutex c) = dutex_version dutex"
  by (cases c) (auto simp: Lock_def Unlock_def Let_def split: if_splits option.splits)

lemma issued_nth:
  "i < length (issued dutex cs) \<Longrightarrow> issued dutex cs ! i = dutex_version dutex + of_nat (Suc i)"
proof (induction cs arbitrary: dutex i)
  case Nil
  then show ?case by simp
next
  case (Cons c cs)
  show ?case
  proof (cases "granted dutex c")
    case None
    with Cons.prems have "i < length (issued (step dutex c) cs)" by simp
    from Cons.IH [OF this] None show ?thesis
      by (simp add: granted_None)
  next
    case (Some v)
    show ?thesis
    proof (cases i)
      case 0
      with Some granted_Some [OF Some] show ?thesis by simp
    next
      case (Suc j)
      with Cons.prems Some have "j < length (issued (step dutex c) cs)" by simp
      from Cons.IH [OF this] Some Suc granted_Some [OF Some] show ?thesis
        by simp
    qed
  qed
qed

lemma issued_replicate_zero_lifetime:
  assumes "\<forall>previous. locked dutex r = Some previous \<longrightarrow> expiration previous \<le> t"
  shows "length (issued dutex (replicate n (CallLock \<lparr>lock_Resource = r, Lifetime = 0\<rparr> t t))) = n"
  using assms
proof (induction n arbitrary: dutex)
  case 0
  then show ?case by simp
next
  case (Suc n)
  let ?c = "CallLock \<lparr>lock_Resource = r, Lifetime = 0\<rparr> t t"
  have g: "granted dutex ?c = Some (dutex_version dutex + 1)"
    using Suc.prems by (auto simp: Lock_def Let_def Before_def split: option.splits)
  have "\<forall>previous. locked (step dutex ?c) r = Some previous \<longrightarrow> expiration previous \<le> t"
    using Suc.prems by (auto simp: Lock_def Let_def Before_def Add_def split: option.splits)
  from Suc.IH [OF this] g show ?case by simp
qed

text \<open>
  C2, as the claim has it, holds of every sequence of calls. The counter is a
  \<^verbatim>\<open>uint64\<close> and \<^verbatim>\<open>dutex.version++\<close> wraps: of \<open>2 ^ 64\<close> calls of Lock with
  lifetime zero on a new registry, all of which succeed, the first returns 1 and the last
  returns 0, which is not greater than the versions returned before it.
\<close>

theorem issued_wraps_after_2_64:
  "issued newDutex (replicate (2 ^ 64) (CallLock \<lparr>lock_Resource = ''r'', Lifetime = 0\<rparr> 0 0)) ! 0 = 1
   \<and> issued newDutex (replicate (2 ^ 64) (CallLock \<lparr>lock_Resource = ''r'', Lifetime = 0\<rparr> 0 0))
        ! (2 ^ 64 - 1) = 0
   \<and> \<not> sorted_wrt (<)
        (issued newDutex (replicate (2 ^ 64) (CallLock \<lparr>lock_Resource = ''r'', Lifetime = 0\<rparr> 0 0)))"
proof -
  let ?xs = "issued newDutex (replicate (2 ^ 64) (CallLock \<lparr>lock_Resource = ''r'', Lifetime = 0\<rparr> 0 0))"
  have len: "length ?xs = 2 ^ 64"
    by (rule issued_replicate_zero_lifetime) (simp add: newDutex_def)
  have "0 < length ?xs"
    using len by simp
  from issued_nth [OF this] have first: "?xs ! 0 = 1"
    by (simp add: newDutex_def)
  have "(2::nat) ^ 64 - 1 < length ?xs"
    using len by simp
  from issued_nth [OF this] have last: "?xs ! (2 ^ 64 - 1) = 0"
    by (simp add: newDutex_def)
  have "\<not> sorted_wrt (<) ?xs"
  proof
    assume "sorted_wrt (<) ?xs"
    moreover have "(0::nat) < 2 ^ 64 - 1" by simp
    moreover have "(2::nat) ^ 64 - 1 < length ?xs" using len by simp
    ultimately have "?xs ! 0 < ?xs ! (2 ^ 64 - 1)"
      by (rule sorted_wrt_nth_less)
    with first last show False by simp
  qed
  with first last show ?thesis by simp
qed

text \<open>
  C2 (amended). For every sequence of calls on a new registry in which fewer than
  \<open>2 ^ 64\<close> calls of Lock succeed: each successful Lock, on any resource, returns a version
  strictly greater than every version returned by a Lock that succeeded before it.
\<close>

theorem issued_strictly_increasing:
  assumes "length (issued newDutex cs) < 2 ^ 64"
  shows "sorted_wrt (<) (issued newDutex cs)"
proof -
  have "issued newDutex cs ! i < issued newDutex cs ! j"
    if "i < j" and "j < length (issued newDutex cs)" for i j
  proof -
    from that have i: "i < length (issued newDutex cs)" by simp
    have "Suc j < 2 ^ LENGTH(64)"
      using that assms by simp
    moreover have "Suc i < Suc j" using that by simp
    ultimately have "(of_nat (Suc i) :: 64 word) < of_nat (Suc j)"
      by (simp only: of_nat_word_less_iff take_bit_nat_eq_self)
    then show ?thesis
      using issued_nth [OF i] issued_nth [OF that(2)] by (simp add: newDutex_def)
  qed
  then show ?thesis
    by (simp add: sorted_wrt_iff_nth_less)
qed

theorem issued_strictly_increasing_witness:
  "length (issued newDutex
      [CallLock \<lparr>lock_Resource = ''foo'', Lifetime = 10\<rparr> 0 1,
       CallLock \<lparr>lock_Resource = ''foo'', Lifetime = 10\<rparr> 2 3,
       CallLock \<lparr>lock_Resource = ''bar'', Lifetime = 10\<rparr> 4 5,
       CallUnlock \<lparr>unlock_Resource = ''foo'', Version = 1\<rparr>,
       CallLock \<lparr>lock_Resource = ''foo'', Lifetime = 10\<rparr> 6 7]) < 2 ^ 64
   \<and> issued newDutex
      [CallLock \<lparr>lock_Resource = ''foo'', Lifetime = 10\<rparr> 0 1,
       CallLock \<lparr>lock_Resource = ''foo'', Lifetime = 10\<rparr> 2 3,
       CallLock \<lparr>lock_Resource = ''bar'', Lifetime = 10\<rparr> 4 5,
       CallUnlock \<lparr>unlock_Resource = ''foo'', Version = 1\<rparr>,
       CallLock \<lparr>lock_Resource = ''foo'', Lifetime = 10\<rparr> 6 7] = [1, 2, 3]
   \<and> sorted_wrt (<) (issued newDutex
      [CallLock \<lparr>lock_Resource = ''foo'', Lifetime = 10\<rparr> 0 1,
       CallLock \<lparr>lock_Resource = ''foo'', Lifetime = 10\<rparr> 2 3,
       CallLock \<lparr>lock_Resource = ''bar'', Lifetime = 10\<rparr> 4 5,
       CallUnlock \<lparr>unlock_Resource = ''foo'', Version = 1\<rparr>,
       CallLock \<lparr>lock_Resource = ''foo'', Lifetime = 10\<rparr> 6 7])"
proof -
  have e: "issued newDutex
      [CallLock \<lparr>lock_Resource = ''foo'', Lifetime = 10\<rparr> 0 1,
       CallLock \<lparr>lock_Resource = ''foo'', Lifetime = 10\<rparr> 2 3,
       CallLock \<lparr>lock_Resource = ''bar'', Lifetime = 10\<rparr> 4 5,
       CallUnlock \<lparr>unlock_Resource = ''foo'', Version = 1\<rparr>,
       CallLock \<lparr>lock_Resource = ''foo'', Lifetime = 10\<rparr> 6 7] = [1, 2, 3]"
    by (simp add: Lock_def Unlock_def newDutex_def Before_def Add_def)
  then have l: "length (issued newDutex
      [CallLock \<lparr>lock_Resource = ''foo'', Lifetime = 10\<rparr> 0 1,
       CallLock \<lparr>lock_Resource = ''foo'', Lifetime = 10\<rparr> 2 3,
       CallLock \<lparr>lock_Resource = ''bar'', Lifetime = 10\<rparr> 4 5,
       CallUnlock \<lparr>unlock_Resource = ''foo'', Version = 1\<rparr>,
       CallLock \<lparr>lock_Resource = ''foo'', Lifetime = 10\<rparr> 6 7]) < 2 ^ 64"
    by simp
  from e l issued_strictly_increasing [OF l] show ?thesis
    by simp
qed

subsection \<open>Calls of Lock in flight together\<close>

text \<open>
  A run of calls splits at any point, the counter after a run is the counter before it
  plus the number of versions handed out, and a resource that no call of Lock names has no
  entry after a run from a registry where it had none.
\<close>

lemma run_append: "run dutex (cs @ cs') = run (run dutex cs) cs'"
  by (induction cs arbitrary: dutex) simp_all












end
